theory Spec2Isabelle
  imports Main "HOL-Library.Word"
begin

section \<open>Assertions\<close>

text \<open>
  The header guards its contracts with \<^verbatim>\<open>DCHECK(cond)\<close>. A call that breaks a contract
  does not return: the model makes that outcome a value, \<open>Inl DCheckFailed\<close>.
\<close>

datatype failure = DCheckFailed

text \<open>
  Modelled from the spec: the macro \<^verbatim>\<open>DCHECK\<close> comes from \<^verbatim>\<open>src/base/logging.h\<close>, which is
  not among the sources. The spec calls a broken precondition a contract violation on
  which the implementation asserts or aborts in debug builds. The build is the
  parameter \<open>dbg\<close>: the check fires in a debug build when its condition is false, and is
  no code at all otherwise.
\<close>

definition DCHECK_fires :: "bool \<Rightarrow> bool \<Rightarrow> bool" where
  "DCHECK_fires dbg cond = (dbg \<and> \<not> cond)"

section \<open>\<^verbatim>\<open>class WasmError\<close>\<close>

text \<open>
  \<^verbatim>\<open>uint32_t offset_ = 0; std::string message_;\<close> A name cannot end in an underscore here,
  so each private member \<^verbatim>\<open>x_\<close> of the header is the field \<open>x_fld\<close>.
\<close>

record WasmError =
  offset_fld :: "32 word"
  message_fld :: string

text \<open>\<^verbatim>\<open>WasmError() = default;\<close>\<close>

definition WasmError_default :: WasmError where
  "WasmError_default = \<lparr>offset_fld = 0, message_fld = []\<rparr>"

text \<open>
  \<^verbatim>\<open>WasmError(uint32_t offset, std::string message)\<close>, with its
  \<^verbatim>\<open>DCHECK(!message_.empty())\<close>.
\<close>

definition WasmError_new :: "bool \<Rightarrow> 32 word \<Rightarrow> string \<Rightarrow> failure + WasmError" where
  "WasmError_new dbg offset message =
     (if DCHECK_fires dbg (message \<noteq> []) then Inl DCheckFailed
      else Inr \<lparr>offset_fld = offset, message_fld = message\<rparr>)"

definition WasmError_empty :: "WasmError \<Rightarrow> bool" where
  "WasmError_empty e = (message_fld e = [])"

definition WasmError_has_error :: "WasmError \<Rightarrow> bool" where
  "WasmError_has_error e = (message_fld e \<noteq> [])"

definition WasmError_offset :: "WasmError \<Rightarrow> 32 word" where
  "WasmError_offset e = offset_fld e"

definition WasmError_message :: "WasmError \<Rightarrow> string" where
  "WasmError_message e = message_fld e"

section \<open>\<^verbatim>\<open>template <typename T> class Result\<close>\<close>

text \<open>
  \<^verbatim>\<open>T value_ = T{}; WasmError error_;\<close> Both members are always there; the error's emptiness
  says which one counts.
\<close>

record 'a Result =
  value_fld :: 'a
  error_fld :: WasmError

text \<open>
  \<^verbatim>\<open>explicit Result(U&& value) : value_(std::forward<U>(value)) {}\<close>: the error member keeps
  its default.
\<close>

definition Result_of_value :: "'a \<Rightarrow> 'a Result" where
  "Result_of_value v = \<lparr>value_fld = v, error_fld = WasmError_default\<rparr>"

text \<open>
  \<^verbatim>\<open>explicit Result(WasmError error) : error_(std::move(error)) {}\<close>: the value member keeps
  its default \<^verbatim>\<open>T{}\<close>, here the parameter \<open>dflt\<close>.
\<close>

definition Result_of_error :: "'a \<Rightarrow> WasmError \<Rightarrow> 'a Result" where
  "Result_of_error dflt e = \<lparr>value_fld = dflt, error_fld = e\<rparr>"

definition Result_ok :: "'a Result \<Rightarrow> bool" where
  "Result_ok r = WasmError_empty (error_fld r)"

definition Result_failed :: "'a Result \<Rightarrow> bool" where
  "Result_failed r = WasmError_has_error (error_fld r)"

definition Result_error :: "'a Result \<Rightarrow> WasmError" where
  "Result_error r = error_fld r"

text \<open>\<^verbatim>\<open>value()\<close>, both overloads: \<^verbatim>\<open>DCHECK(ok()); return value_;\<close>\<close>

definition Result_value :: "bool \<Rightarrow> 'a Result \<Rightarrow> failure + 'a" where
  "Result_value dbg r =
     (if DCHECK_fires dbg (Result_ok r) then Inl DCheckFailed else Inr (value_fld r))"

text \<open>
  \<^verbatim>\<open>operator Result<U>() const&&\<close>:
  \<^verbatim>\<open>return ok() ? Result<U>{std::move(value_)} : Result<U>{error_};\<close>
  The conversion of a \<^verbatim>\<open>T\<close> into a \<^verbatim>\<open>U\<close> is the parameter \<open>conv\<close>, and \<open>dflt\<close> is \<^verbatim>\<open>U{}\<close>.
\<close>

definition Result_convert :: "('a \<Rightarrow> 'b) \<Rightarrow> 'b \<Rightarrow> 'a Result \<Rightarrow> 'b Result" where
  "Result_convert conv dflt r =
     (if Result_ok r then Result_of_value (conv (value_fld r))
      else Result_of_error dflt (error_fld r))"

section \<open>C strings and \<^verbatim>\<open>printf\<close>-style formatting\<close>

text \<open>
  \<^verbatim>\<open>std::string::c_str()\<close> hands the bytes out as a C string, which ends at its first NUL
  byte: a reader of the \<^verbatim>\<open>const char*\<close> sees the bytes before it and no more.
\<close>

definition c_str :: "string \<Rightarrow> string" where
  "c_str s = takeWhile (\<lambda>c. c \<noteq> CHR 0x00) s"

text \<open>
  The variable arguments of a formatting call: a C string for \<^verbatim>\<open>%s\<close>, an
  \<^verbatim>\<open>unsigned\<close> (32 bits here) for \<^verbatim>\<open>%u\<close>.
\<close>

datatype printf_arg = ArgCStr string | ArgUInt "32 word"

definition digit_char :: "nat \<Rightarrow> char" where
  "digit_char d = ''0123456789'' ! d"

text \<open>What \<^verbatim>\<open>%u\<close> prints: the decimal digits, most significant first, no padding.\<close>

fun decimal :: "nat \<Rightarrow> string" where
  "decimal n =
     (if n < 10 then [digit_char n] else decimal (n div 10) @ [digit_char (n mod 10)])"

declare decimal.simps [simp del]

text \<open>
  The C library's formatting, for the directives the header uses (\<^verbatim>\<open>%s\<close>, \<^verbatim>\<open>%u\<close>) and
  \<^verbatim>\<open>%%\<close>; every other byte of the format is copied. A directive with no argument of its
  type is undefined behaviour in C: the model ends the output there.
\<close>

fun vsnprintf :: "string \<Rightarrow> printf_arg list \<Rightarrow> string" where
  "vsnprintf [] args = []"
| "vsnprintf [c] args = [c]"
| "vsnprintf (c # d # fmt) args =
     (if c \<noteq> CHR ''%'' then c # vsnprintf (d # fmt) args
      else if d = CHR ''%'' then CHR ''%'' # vsnprintf fmt args
      else if d = CHR ''s'' then
        (case args of ArgCStr s # rest \<Rightarrow> s @ vsnprintf fmt rest | _ \<Rightarrow> [])
      else if d = CHR ''u'' then
        (case args of ArgUInt n # rest \<Rightarrow> decimal (unat n) @ vsnprintf fmt rest | _ \<Rightarrow> [])
      else [])"

section \<open>\<^verbatim>\<open>class ErrorThrower\<close>\<close>

text \<open>
  \<^verbatim>\<open>enum ErrorType\<close>, with the values the enumerators get from their order, and the marker
  \<^verbatim>\<open>kFirstWasmError = kCompileError\<close>.
\<close>

datatype ErrorType = kNone | kTypeError | kRangeError | kCompileError | kLinkError | kRuntimeError

fun ErrorType_value :: "ErrorType \<Rightarrow> nat" where
  "ErrorType_value kNone = 0"
| "ErrorType_value kTypeError = 1"
| "ErrorType_value kRangeError = 2"
| "ErrorType_value kCompileError = 3"
| "ErrorType_value kLinkError = 4"
| "ErrorType_value kRuntimeError = 5"

definition kFirstWasmError :: ErrorType where
  "kFirstWasmError = kCompileError"

text \<open>
  Modelled from the spec: \<^verbatim>\<open>class Isolate\<close> is only declared in the header. The spec treats
  the host runtime as an opaque sink with two operations, "create exception object" and
  "schedule exception"; an exception object has a kind that matches the category, and
  carries the message. The host state records the objects created and the exceptions
  scheduled, in order.
\<close>

datatype Exception = Exception ErrorType string

record Isolate =
  created_exceptions :: "Exception list"
  scheduled_exceptions :: "Exception list"



text \<open>
  \<^verbatim>\<open>Isolate* isolate_; const char* context_; ErrorType error_type_ = kNone;
  std::string error_msg_;\<close> The thrower holds a pointer to the host; the model keeps the
  host's state in the field and passes it on.
\<close>

record ErrorThrower =
  isolate_fld :: Isolate
  context_fld :: string
  error_type_fld :: ErrorType
  error_msg_fld :: string

text \<open>\<^verbatim>\<open>ErrorThrower(Isolate* isolate, const char* context)\<close>\<close>

definition ErrorThrower_new :: "Isolate \<Rightarrow> string \<Rightarrow> ErrorThrower" where
  "ErrorThrower_new isolate context =
     \<lparr>isolate_fld = isolate, context_fld = context, error_type_fld = kNone, error_msg_fld = []\<rparr>"

text \<open>\<^verbatim>\<open>bool error() const { return error_type_ != kNone; }\<close>\<close>

definition ErrorThrower_error :: "ErrorThrower \<Rightarrow> bool" where
  "ErrorThrower_error s = (error_type_fld s \<noteq> kNone)"

text \<open>\<^verbatim>\<open>bool wasm_error() { return error_type_ >= kFirstWasmError; }\<close>\<close>

definition ErrorThrower_wasm_error :: "ErrorThrower \<Rightarrow> bool" where
  "ErrorThrower_wasm_error s =
     (ErrorType_value (error_type_fld s) \<ge> ErrorType_value kFirstWasmError)"

text \<open>\<^verbatim>\<open>const char* error_msg() { return error_msg_.c_str(); }\<close>\<close>

definition ErrorThrower_error_msg :: "ErrorThrower \<Rightarrow> string" where
  "ErrorThrower_error_msg s = c_str (error_msg_fld s)"

text \<open>
  Modelled from the spec: \<^verbatim>\<open>Format\<close> and the five setters are declared in the header and
  defined elsewhere. The spec: each setter takes a format string plus arguments, builds
  the message, and sets the category to the corresponding value; each call
  unconditionally overwrites any previously pending error; and the context label
  identifies the failing operation in messages. The message is the label, read as the
  C string it is, a colon and a space, and then the formatted text.
\<close>

definition ErrorThrower_Format ::
  "ErrorType \<Rightarrow> string \<Rightarrow> printf_arg list \<Rightarrow> ErrorThrower \<Rightarrow> ErrorThrower" where
  "ErrorThrower_Format ty fmt args s =
     s\<lparr>error_type_fld := ty,
       error_msg_fld := c_str (context_fld s) @ '': '' @ vsnprintf fmt args\<rparr>"

definition ErrorThrower_TypeError :: "string \<Rightarrow> printf_arg list \<Rightarrow> ErrorThrower \<Rightarrow> ErrorThrower" where
  "ErrorThrower_TypeError fmt args s = ErrorThrower_Format kTypeError fmt args s"


definition ErrorThrower_CompileError :: "string \<Rightarrow> printf_arg list \<Rightarrow> ErrorThrower \<Rightarrow> ErrorThrower" where
  "ErrorThrower_CompileError fmt args s = ErrorThrower_Format kCompileError fmt args s"



text \<open>
  \<^verbatim>\<open>void CompileFailed(const WasmError& error) {
    DCHECK(error.has_error());
    CompileError("%s @+%u", error.message().c_str(), error.offset());
  }\<close>
\<close>

text \<open>
  The body is in the header; the setter it calls is not. \<open>ErrorThrower_CompileFailed_with\<close>
  is the body with that setter as its first argument, whatever the setter does;
  \<open>ErrorThrower_CompileFailed\<close> is the body over the setter as modelled above.
\<close>

definition ErrorThrower_CompileFailed_with ::
  "(string \<Rightarrow> printf_arg list \<Rightarrow> ErrorThrower \<Rightarrow> ErrorThrower)
    \<Rightarrow> bool \<Rightarrow> WasmError \<Rightarrow> ErrorThrower \<Rightarrow> failure + ErrorThrower" where
  "ErrorThrower_CompileFailed_with CompileError dbg error s =
     (if DCHECK_fires dbg (WasmError_has_error error) then Inl DCheckFailed
      else Inr (CompileError ''%s @+%u''
                  [ArgCStr (c_str (WasmError_message error)), ArgUInt (WasmError_offset error)] s))"

definition ErrorThrower_CompileFailed :: "bool \<Rightarrow> WasmError \<Rightarrow> ErrorThrower \<Rightarrow> failure + ErrorThrower" where
  "ErrorThrower_CompileFailed dbg error s =
     ErrorThrower_CompileFailed_with ErrorThrower_CompileError dbg error s"

text \<open>
  Modelled from the spec: \<^verbatim>\<open>Reset\<close> is declared in the header and defined elsewhere. The
  spec: it clears the category to \<^verbatim>\<open>None\<close> and the message to empty, and does not reify.
\<close>

definition ErrorThrower_Reset :: "ErrorThrower \<Rightarrow> ErrorThrower" where
  "ErrorThrower_Reset s = s\<lparr>error_type_fld := kNone, error_msg_fld := []\<rparr>"




section \<open>Sequences of calls on one thrower\<close>










section \<open>Properties of \<^verbatim>\<open>Result\<close>\<close>

lemma Result_ok_iff_not_failed: "Result_ok r = (\<not> Result_failed r)"
  by (simp add: Result_ok_def Result_failed_def WasmError_empty_def WasmError_has_error_def)

text \<open>
  C2: for every value \<open>v\<close>, a \<^verbatim>\<open>Result\<close> constructed from \<open>v\<close> is in the ok state and
  \<^verbatim>\<open>value()\<close> returns \<open>v\<close>, in a debug build and in any other.
\<close>

theorem Result_of_value_ok:
  "Result_ok (Result_of_value v) \<and> Result_value dbg (Result_of_value v) = Inr v"
  by (simp add: Result_ok_def Result_of_value_def WasmError_empty_def WasmError_default_def
      Result_value_def DCHECK_fires_def)

text \<open>
  C3: for every \<^verbatim>\<open>WasmError\<close> \<open>e\<close> with a non-empty message, a \<^verbatim>\<open>Result<T>\<close> constructed
  from \<open>e\<close> is in the failed state, and the stored error has the offset and the message
  of \<open>e\<close>.
\<close>

theorem Result_of_error_failed:
  assumes "WasmError_message e \<noteq> []"
  shows "Result_failed (Result_of_error dflt e)
    \<and> WasmError_offset (Result_error (Result_of_error dflt e)) = WasmError_offset e
    \<and> WasmError_message (Result_error (Result_of_error dflt e)) = WasmError_message e"
  using assms
  by (simp add: Result_failed_def Result_of_error_def Result_error_def
      WasmError_has_error_def WasmError_message_def)

theorem Result_of_error_failed_witness:
  "WasmError_message \<lparr>offset_fld = 10, message_fld = ''bad byte''\<rparr> \<noteq> []
    \<and> Result_failed (Result_of_error (0::int) \<lparr>offset_fld = 10, message_fld = ''bad byte''\<rparr>)
    \<and> WasmError_offset (Result_error (Result_of_error (0::int)
          \<lparr>offset_fld = 10, message_fld = ''bad byte''\<rparr>)) = 10
    \<and> WasmError_message (Result_error (Result_of_error (0::int)
          \<lparr>offset_fld = 10, message_fld = ''bad byte''\<rparr>)) = ''bad byte''"
  using Result_of_error_failed [of "\<lparr>offset_fld = 10, message_fld = ''bad byte''\<rparr>" "0::int"]
  by (simp add: WasmError_message_def WasmError_offset_def)

text \<open>
  C4: converting a \<^verbatim>\<open>Result<T>\<close> to \<^verbatim>\<open>Result<U>\<close>: an ok source gives an ok container that
  holds the converted value; a failed source gives a failed container that holds the
  same \<^verbatim>\<open>WasmError\<close>, offset and message unchanged.
\<close>

theorem Result_convert_preserves:
  "(Result_ok r \<longrightarrow>
      Result_ok (Result_convert conv dflt r)
      \<and> Result_value dbg (Result_convert conv dflt r) = Inr (conv (value_fld r)))
   \<and> (Result_failed r \<longrightarrow>
      Result_failed (Result_convert conv dflt r)
      \<and> Result_error (Result_convert conv dflt r) = Result_error r
      \<and> WasmError_offset (Result_error (Result_convert conv dflt r))
          = WasmError_offset (Result_error r)
      \<and> WasmError_message (Result_error (Result_convert conv dflt r))
          = WasmError_message (Result_error r))"
proof (cases "Result_ok r")
  case True
  then have "Result_convert conv dflt r = Result_of_value (conv (value_fld r))"
    by (simp add: Result_convert_def)
  moreover have "\<not> Result_failed r"
    using True by (simp add: Result_ok_iff_not_failed)
  ultimately show ?thesis
    by (simp add: Result_ok_def Result_of_value_def WasmError_empty_def WasmError_default_def
        Result_value_def DCHECK_fires_def)
next
  case False
  then have "Result_convert conv dflt r = Result_of_error dflt (error_fld r)"
    by (simp add: Result_convert_def)
  then show ?thesis
    using False by (simp add: Result_failed_def Result_of_error_def Result_error_def)
qed

theorem Result_convert_preserves_witness:
  "Result_ok (Result_of_value (5::nat))
   \<and> Result_ok (Result_convert int 0 (Result_of_value (5::nat)))
   \<and> Result_value True (Result_convert int 0 (Result_of_value (5::nat))) = Inr 5
   \<and> Result_failed (Result_of_error (0::nat) \<lparr>offset_fld = 10, message_fld = ''bad byte''\<rparr>)
   \<and> Result_failed (Result_convert int 0
        (Result_of_error (0::nat) \<lparr>offset_fld = 10, message_fld = ''bad byte''\<rparr>))
   \<and> Result_error (Result_convert int 0
        (Result_of_error (0::nat) \<lparr>offset_fld = 10, message_fld = ''bad byte''\<rparr>))
      = \<lparr>offset_fld = 10, message_fld = ''bad byte''\<rparr>"
proof -
  have ok: "Result_ok (Result_of_value (5::nat))"
    by (simp add: Result_ok_def Result_of_value_def WasmError_empty_def WasmError_default_def)
  have failed:
    "Result_failed (Result_of_error (0::nat) \<lparr>offset_fld = 10, message_fld = ''bad byte''\<rparr>)"
    by (simp add: Result_failed_def Result_of_error_def WasmError_has_error_def)
  show ?thesis
    using ok failed
      Result_convert_preserves [of "Result_of_value (5::nat)" int 0 True]
      Result_convert_preserves [of
        "Result_of_error (0::nat) \<lparr>offset_fld = 10, message_fld = ''bad byte''\<rparr>" int 0 True]
    by (simp add: Result_of_value_def Result_of_error_def Result_error_def)
qed

text \<open>
  C8: on a \<^verbatim>\<open>Result<T>\<close> that is ok, \<^verbatim>\<open>value()\<close> returns the held value and the assertion
  does not fire, whatever the build. On a failed one the call breaks the contract: in a
  debug build the assertion fires, and in any other build the call returns the stored
  member just the same; in neither is a \<^verbatim>\<open>WasmError\<close> reported.
\<close>

theorem Result_value_contract:
  "(Result_ok r \<longrightarrow> Result_value dbg r = Inr (value_fld r))
   \<and> (Result_failed r \<longrightarrow>
        Result_value True r = Inl DCheckFailed \<and> Result_value False r = Inr (value_fld r))"
  by (simp add: Result_value_def DCHECK_fires_def Result_ok_iff_not_failed)

theorem Result_value_contract_witness:
  "Result_ok \<lparr>value_fld = 5::int, error_fld = WasmError_default\<rparr>
   \<and> Result_value True \<lparr>value_fld = 5::int, error_fld = WasmError_default\<rparr> = Inr 5
   \<and> Result_failed \<lparr>value_fld = 0::int, error_fld = \<lparr>offset_fld = 10, message_fld = ''bad byte''\<rparr>\<rparr>
   \<and> Result_value True
        \<lparr>value_fld = 0::int, error_fld = \<lparr>offset_fld = 10, message_fld = ''bad byte''\<rparr>\<rparr>
      = Inl DCheckFailed
   \<and> Result_value False
        \<lparr>value_fld = 0::int, error_fld = \<lparr>offset_fld = 10, message_fld = ''bad byte''\<rparr>\<rparr>
      = Inr 0"
proof -
  have ok: "Result_ok \<lparr>value_fld = 5::int, error_fld = WasmError_default\<rparr>"
    by (simp add: Result_ok_def WasmError_empty_def WasmError_default_def)
  have failed: "Result_failed
      \<lparr>value_fld = 0::int, error_fld = \<lparr>offset_fld = 10, message_fld = ''bad byte''\<rparr>\<rparr>"
    by (simp add: Result_failed_def WasmError_has_error_def)
  show ?thesis
    using ok failed
      Result_value_contract [of "\<lparr>value_fld = 5::int, error_fld = WasmError_default\<rparr>" True]
      Result_value_contract [of
        "\<lparr>value_fld = 0::int, error_fld = \<lparr>offset_fld = 10, message_fld = ''bad byte''\<rparr>\<rparr>" True]
    by simp
qed

section \<open>Properties of C strings and formatting\<close>

lemma digit_char_not_nul: "d < 10 \<Longrightarrow> digit_char d \<noteq> CHR 0x00"
proof -
  assume "d < 10"
  then have "d \<in> {0, 1, 2, 3, 4, 5, 6, 7, 8, 9}" by auto
  then show ?thesis by (auto simp: digit_char_def)
qed

lemma decimal_no_nul: "CHR 0x00 \<notin> set (decimal n)"
proof (induction n rule: decimal.induct)
  case (1 n)
  show ?case
  proof (cases "n < 10")
    case True
    then show ?thesis
      using digit_char_not_nul [of n] by (subst decimal.simps) auto
  next
    case False
    then have "CHR 0x00 \<notin> set (decimal (n div 10))" by (rule "1.IH")
    moreover have "digit_char (n mod 10) \<noteq> CHR 0x00" by (simp add: digit_char_not_nul)
    ultimately show ?thesis
      using False by (subst decimal.simps) auto
  qed
qed

lemma c_str_no_nul: "CHR 0x00 \<notin> set s \<Longrightarrow> c_str s = s"
  by (auto simp: c_str_def takeWhile_eq_all_conv)

lemma c_str_set: "CHR 0x00 \<notin> set (c_str s)"
  by (auto simp: c_str_def dest: set_takeWhileD)

lemma vsnprintf_CompileFailed:
  "vsnprintf ''%s @+%u'' [ArgCStr m, ArgUInt n] = m @ '' @+'' @ decimal (unat n)"
  by simp

section \<open>Properties of \<^verbatim>\<open>ErrorThrower\<close>\<close>


lemma CompileFailed_state:
  "\<not> DCHECK_fires dbg (WasmError_has_error e) \<Longrightarrow>
   ErrorThrower_CompileFailed dbg e s =
     Inr (s\<lparr>error_type_fld := kCompileError,
            error_msg_fld := c_str (context_fld s) @ '': '' @ c_str (WasmError_message e)
              @ '' @+'' @ decimal (unat (WasmError_offset e))\<rparr>)"
  by (simp add: ErrorThrower_CompileFailed_def ErrorThrower_CompileFailed_with_def
      ErrorThrower_CompileError_def ErrorThrower_Format_def)









text \<open>
  C5, as the code has it: \<^verbatim>\<open>CompileFailed\<close>, called with a \<^verbatim>\<open>WasmError\<close> on which its
  assertion does not fire (the error has a message, or the build is not a debug build)
  and whose message \<open>m\<close> holds no NUL byte, sets the thrower's message so that
  \<^verbatim>\<open>error_msg()\<close> contains \<open>m\<close> followed by \<^verbatim>\<open>" @+"\<close> and the offset in decimal, at its end,
  and sets the category to \<^verbatim>\<open>kCompileError\<close>, so that \<^verbatim>\<open>wasm_error()\<close> is true.
\<close>

theorem CompileFailed_message:
  assumes "\<not> DCHECK_fires dbg (WasmError_has_error e)"
    and "CHR 0x00 \<notin> set (WasmError_message e)"
  shows "\<exists>s'. ErrorThrower_CompileFailed dbg e s = Inr s'
    \<and> (\<exists>pre. ErrorThrower_error_msg s'
          = pre @ WasmError_message e @ '' @+'' @ decimal (unat (WasmError_offset e)))
    \<and> error_type_fld s' = kCompileError
    \<and> ErrorThrower_wasm_error s'"
proof -
  let ?tail = "WasmError_message e @ '' @+'' @ decimal (unat (WasmError_offset e))"
  let ?s' = "s\<lparr>error_type_fld := kCompileError,
      error_msg_fld := c_str (context_fld s) @ '': '' @ c_str (WasmError_message e)
        @ '' @+'' @ decimal (unat (WasmError_offset e))\<rparr>"
  have run: "ErrorThrower_CompileFailed dbg e s = Inr ?s'"
    using assms(1) by (rule CompileFailed_state)
  have m: "c_str (WasmError_message e) = WasmError_message e"
    using assms(2) by (rule c_str_no_nul)
  have "CHR 0x00 \<notin> set (c_str (context_fld s) @ '': '' @ ?tail)"
    using assms(2) decimal_no_nul c_str_set by simp
  then have "c_str (c_str (context_fld s) @ '': '' @ ?tail) = c_str (context_fld s) @ '': '' @ ?tail"
    by (rule c_str_no_nul)
  then have "ErrorThrower_error_msg ?s' = (c_str (context_fld s) @ '': '') @ ?tail"
    using m by (simp add: ErrorThrower_error_msg_def)
  then have msg: "\<exists>pre. ErrorThrower_error_msg ?s' = pre @ ?tail"
    by (rule exI [of _ "c_str (context_fld s) @ '': ''"])
  have cat: "error_type_fld ?s' = kCompileError" by simp
  have wasm: "ErrorThrower_wasm_error ?s'"
    by (simp add: ErrorThrower_wasm_error_def kFirstWasmError_def)
  show ?thesis
    by (rule exI [of _ ?s']) (intro conjI run msg cat wasm)
qed

theorem CompileFailed_message_witness:
  "\<not> DCHECK_fires True (WasmError_has_error \<lparr>offset_fld = 10, message_fld = ''bad byte''\<rparr>)
   \<and> CHR 0x00 \<notin> set (WasmError_message \<lparr>offset_fld = 10, message_fld = ''bad byte''\<rparr>)
   \<and> ErrorThrower_CompileFailed True \<lparr>offset_fld = 10, message_fld = ''bad byte''\<rparr>
       (ErrorThrower_new \<lparr>created_exceptions = [], scheduled_exceptions = []\<rparr> ''ctx'')
     = Inr \<lparr>isolate_fld = \<lparr>created_exceptions = [], scheduled_exceptions = []\<rparr>,
        context_fld = ''ctx'', error_type_fld = kCompileError, error_msg_fld = ''ctx: bad byte @+10''\<rparr>
   \<and> (\<exists>pre. ErrorThrower_error_msg
        \<lparr>isolate_fld = \<lparr>created_exceptions = [], scheduled_exceptions = []\<rparr>,
        context_fld = ''ctx'', error_type_fld = kCompileError, error_msg_fld = ''ctx: bad byte @+10''\<rparr> = pre @ ''bad byte @+10'')
   \<and> ErrorThrower_wasm_error
       \<lparr>isolate_fld = \<lparr>created_exceptions = [], scheduled_exceptions = []\<rparr>,
        context_fld = ''ctx'', error_type_fld = kCompileError, error_msg_fld = ''ctx: bad byte @+10''\<rparr>"
proof -
  have pre: "\<not> DCHECK_fires True (WasmError_has_error \<lparr>offset_fld = 10, message_fld = ''bad byte''\<rparr>)"
    by (simp add: DCHECK_fires_def WasmError_has_error_def)
  have nul: "CHR 0x00 \<notin> set (WasmError_message \<lparr>offset_fld = 10, message_fld = ''bad byte''\<rparr>)"
    by (simp add: WasmError_message_def)
  have dec: "decimal (unat (10 :: 32 word)) = ''10''"
    by (simp add: decimal.simps digit_char_def)
  have run: "ErrorThrower_CompileFailed True \<lparr>offset_fld = 10, message_fld = ''bad byte''\<rparr>
       (ErrorThrower_new \<lparr>created_exceptions = [], scheduled_exceptions = []\<rparr> ''ctx'')
     = Inr \<lparr>isolate_fld = \<lparr>created_exceptions = [], scheduled_exceptions = []\<rparr>,
        context_fld = ''ctx'', error_type_fld = kCompileError, error_msg_fld = ''ctx: bad byte @+10''\<rparr>"
    using dec
    by (simp add: CompileFailed_state [OF pre] ErrorThrower_new_def WasmError_message_def
        WasmError_offset_def c_str_def)
  from CompileFailed_message [OF pre nul, of "ErrorThrower_new \<lparr>created_exceptions = [], scheduled_exceptions = []\<rparr> ''ctx''"]
  show ?thesis
    using pre nul run dec by (simp add: WasmError_message_def WasmError_offset_def)
qed

text \<open>
  Against C5 as stated: in a debug build \<^verbatim>\<open>CompileFailed(WasmError())\<close> stops at its
  assertion and sets no message; and a message \<^verbatim>\<open>"a\0b"\<close> reaches the format as the C
  string \<^verbatim>\<open>"a"\<close>, so the thrower's message ends in \<^verbatim>\<open>"a @+10"\<close> and does not contain the
  message followed by \<^verbatim>\<open>" @+10"\<close>.
\<close>

theorem CompileFailed_message_counterexample:
  "ErrorThrower_CompileFailed True WasmError_default
       (ErrorThrower_new \<lparr>created_exceptions = [], scheduled_exceptions = []\<rparr> ''ctx'')
     = Inl DCheckFailed
   \<and> ErrorThrower_CompileFailed False
       \<lparr>offset_fld = 10, message_fld = [CHR ''a'', CHR 0x00, CHR ''b'']\<rparr>
       (ErrorThrower_new \<lparr>created_exceptions = [], scheduled_exceptions = []\<rparr> ''ctx'')
     = Inr \<lparr>isolate_fld = \<lparr>created_exceptions = [], scheduled_exceptions = []\<rparr>,
        context_fld = ''ctx'', error_type_fld = kCompileError, error_msg_fld = ''ctx: a @+10''\<rparr>
   \<and> \<not> (\<exists>pre. ''ctx: a @+10'' = pre @ [CHR ''a'', CHR 0x00, CHR ''b''] @ '' @+10'')"
proof -
  have abort: "ErrorThrower_CompileFailed True WasmError_default
       (ErrorThrower_new \<lparr>created_exceptions = [], scheduled_exceptions = []\<rparr> ''ctx'')
     = Inl DCheckFailed"
    by (simp add: ErrorThrower_CompileFailed_def ErrorThrower_CompileFailed_with_def
        DCHECK_fires_def WasmError_has_error_def WasmError_default_def)
  have cut: "ErrorThrower_CompileFailed False
       \<lparr>offset_fld = 10, message_fld = [CHR ''a'', CHR 0x00, CHR ''b'']\<rparr>
       (ErrorThrower_new \<lparr>created_exceptions = [], scheduled_exceptions = []\<rparr> ''ctx'')
     = Inr \<lparr>isolate_fld = \<lparr>created_exceptions = [], scheduled_exceptions = []\<rparr>,
        context_fld = ''ctx'', error_type_fld = kCompileError, error_msg_fld = ''ctx: a @+10''\<rparr>"
    by (simp add: ErrorThrower_new_def ErrorThrower_CompileFailed_def
        ErrorThrower_CompileFailed_with_def ErrorThrower_CompileError_def
        ErrorThrower_Format_def DCHECK_fires_def WasmError_message_def WasmError_offset_def
        c_str_def decimal.simps digit_char_def)
  have "\<not> (\<exists>pre. ''ctx: a @+10'' = pre @ [CHR ''a'', CHR 0x00, CHR ''b''] @ '' @+10'')"
  proof
    assume "\<exists>pre. ''ctx: a @+10'' = pre @ [CHR ''a'', CHR 0x00, CHR ''b''] @ '' @+10''"
    then obtain pre where "''ctx: a @+10'' = pre @ [CHR ''a'', CHR 0x00, CHR ''b''] @ '' @+10''" ..
    then have "set ''ctx: a @+10'' = set (pre @ [CHR ''a'', CHR 0x00, CHR ''b''] @ '' @+10'')"
      by (rule arg_cong)
    then have "CHR 0x00 \<in> set ''ctx: a @+10''" by simp
    then show False by simp
  qed
  with abort cut show ?thesis by simp
qed

text \<open>
  C6: \<^verbatim>\<open>wasm_error()\<close> is true iff the category is \<^verbatim>\<open>kCompileError\<close>, \<^verbatim>\<open>kLinkError\<close> or
  \<^verbatim>\<open>kRuntimeError\<close>. After the \<^verbatim>\<open>CompileError\<close> setter \<^verbatim>\<open>error()\<close> and \<^verbatim>\<open>wasm_error()\<close> are
  both true; after the \<^verbatim>\<open>TypeError\<close> setter \<^verbatim>\<open>error()\<close> is true and \<^verbatim>\<open>wasm_error()\<close> is
  false.
\<close>

theorem wasm_error_iff_domain_category:
  "ErrorThrower_wasm_error s =
     (error_type_fld s = kCompileError \<or> error_type_fld s = kLinkError
        \<or> error_type_fld s = kRuntimeError)
   \<and> ErrorThrower_error (ErrorThrower_CompileError fmt args s)
   \<and> ErrorThrower_wasm_error (ErrorThrower_CompileError fmt args s)
   \<and> ErrorThrower_error (ErrorThrower_TypeError fmt args s)
   \<and> \<not> ErrorThrower_wasm_error (ErrorThrower_TypeError fmt args s)"
proof -
  have "ErrorThrower_wasm_error s =
     (error_type_fld s = kCompileError \<or> error_type_fld s = kLinkError
        \<or> error_type_fld s = kRuntimeError)"
    by (cases "error_type_fld s") (simp_all add: ErrorThrower_wasm_error_def kFirstWasmError_def)
  then show ?thesis
    by (simp add: ErrorThrower_error_def ErrorThrower_wasm_error_def kFirstWasmError_def
        ErrorThrower_CompileError_def ErrorThrower_TypeError_def ErrorThrower_Format_def)
qed

text \<open>
  C7: after \<^verbatim>\<open>Reset()\<close> on a thrower in any state, \<^verbatim>\<open>error()\<close> and \<^verbatim>\<open>wasm_error()\<close> are false
  and \<^verbatim>\<open>error_msg()\<close> is the empty string; the host is as it was: no exception object
  is created and none is scheduled.
\<close>

theorem Reset_clears:
  "\<not> ErrorThrower_error (ErrorThrower_Reset s)
   \<and> \<not> ErrorThrower_wasm_error (ErrorThrower_Reset s)
   \<and> ErrorThrower_error_msg (ErrorThrower_Reset s) = []
   \<and> isolate_fld (ErrorThrower_Reset s) = isolate_fld s"
  by (simp add: ErrorThrower_Reset_def ErrorThrower_error_def ErrorThrower_wasm_error_def
      kFirstWasmError_def ErrorThrower_error_msg_def c_str_def)

text \<open>
  C10: in every state of a thrower, \<^verbatim>\<open>wasm_error()\<close> implies \<^verbatim>\<open>error()\<close>.
\<close>

theorem wasm_error_implies_error:
  assumes "ErrorThrower_wasm_error s"
  shows "ErrorThrower_error s"
  using assms
  by (cases "error_type_fld s")
    (simp_all add: ErrorThrower_wasm_error_def ErrorThrower_error_def kFirstWasmError_def)

theorem wasm_error_implies_error_witness:
  "ErrorThrower_wasm_error
     \<lparr>isolate_fld = \<lparr>created_exceptions = [], scheduled_exceptions = []\<rparr>,
      context_fld = ''ctx'', error_type_fld = kLinkError, error_msg_fld = ''x''\<rparr>
   \<and> ErrorThrower_error
     \<lparr>isolate_fld = \<lparr>created_exceptions = [], scheduled_exceptions = []\<rparr>,
      context_fld = ''ctx'', error_type_fld = kLinkError, error_msg_fld = ''x''\<rparr>"
proof -
  have w: "ErrorThrower_wasm_error
     \<lparr>isolate_fld = \<lparr>created_exceptions = [], scheduled_exceptions = []\<rparr>,
      context_fld = ''ctx'', error_type_fld = kLinkError, error_msg_fld = ''x''\<rparr>"
    by (simp add: ErrorThrower_wasm_error_def kFirstWasmError_def)
  from wasm_error_implies_error [OF w] w show ?thesis by simp
qed







end
